theory Spec2Isabelle
  imports Main "HOL-Library.Sublist"
begin

section \<open>Strings and character classes\<close>

text \<open>
  A Python \<^verbatim>\<open>str\<close> is a sequence of Unicode code points, and \<^verbatim>\<open>len\<close> counts code
  points. A string is therefore modelled as a list of code points (natural numbers);
  \<open>str\<close> turns a literal into its code points.
\<close>

type_synonym pystr = "nat list"

definition str :: "string \<Rightarrow> pystr" where
  "str s = map of_char s"

text \<open>
  The class \<^verbatim>\<open>\s\<close> of a \<^verbatim>\<open>str\<close> pattern and the characters removed by
  \<^verbatim>\<open>str.strip()\<close> are the same set, the code points for which \<^verbatim>\<open>str.isspace()\<close>
  holds: TAB..CR, FS..US, SPACE, NEL, NBSP, U+1680, U+2000..U+200A, U+2028, U+2029,
  U+202F, U+205F and U+3000.
\<close>

definition is_space :: "nat \<Rightarrow> bool" where
  "is_space c =
     ((9 \<le> c \<and> c \<le> 13) \<or> (28 \<le> c \<and> c \<le> 32) \<or> c = 133 \<or> c = 160 \<or> c = 5760
      \<or> (8192 \<le> c \<and> c \<le> 8202) \<or> c = 8232 \<or> c = 8233 \<or> c = 8239 \<or> c = 8287
      \<or> c = 12288)"

text \<open>
  The class \<^verbatim>\<open>\w\<close> is \<^verbatim>\<open>[a-zA-Z0-9_]\<close> on ASCII. Beyond ASCII it is the
  alphanumeric table of the Unicode database, which is not part of the repository: it
  is the parameter \<open>U\<close> of every function that cleans text.
\<close>

definition ascii_word :: "nat \<Rightarrow> bool" where
  "ascii_word c =
     ((48 \<le> c \<and> c \<le> 57) \<or> (65 \<le> c \<and> c \<le> 90) \<or> c = 95 \<or> (97 \<le> c \<and> c \<le> 122))"

definition is_word :: "(nat \<Rightarrow> bool) \<Rightarrow> nat \<Rightarrow> bool" where
  "is_word U c = (if c < 128 then ascii_word c else U c)"

text \<open>The table used in closed examples: no alphanumeric code point beyond ASCII.\<close>

definition ascii_only :: "nat \<Rightarrow> bool" where
  "ascii_only c = False"

text \<open>The punctuation of the whitelist of \<^verbatim>\<open>clean_text\<close>: \<^verbatim>\<open>- . , ; : ( ) [ ]\<close>.\<close>

definition is_punct :: "nat \<Rightarrow> bool" where
  "is_punct c = (c \<in> set (str ''-.,;:()[]''))"

text \<open>Python's \<^verbatim>\<open>needle in haystack\<close> on strings.\<close>

fun py_in :: "pystr \<Rightarrow> pystr \<Rightarrow> bool" where
  "py_in needle [] = (needle = [])"
| "py_in needle (c # cs) = (prefix needle (c # cs) \<or> py_in needle cs)"

section \<open>The text cleaner\<close>

text \<open>
  \<^verbatim>\<open>re.sub(r'\s+', ' ', text)\<close>: every maximal run of whitespace becomes one ASCII
  space (code point 32).
\<close>

function sub_whitespace :: "pystr \<Rightarrow> pystr" where
  "sub_whitespace [] = []"
| "sub_whitespace (c # cs) =
     (if is_space c then 32 # sub_whitespace (dropWhile is_space cs)
      else c # sub_whitespace cs)"
  by pat_completeness auto
termination
  by (relation "measure length") (auto simp: less_Suc_eq_le length_dropWhile_le)

text \<open>
  \<^verbatim>\<open>re.sub(r'[^\w\s\-\.,;:()\[\]]+', '', text)\<close>: every character outside the whitelist
  is deleted.
\<close>

definition is_kept :: "(nat \<Rightarrow> bool) \<Rightarrow> nat \<Rightarrow> bool" where
  "is_kept U c = (is_word U c \<or> is_space c \<or> is_punct c)"

definition sub_special :: "(nat \<Rightarrow> bool) \<Rightarrow> pystr \<Rightarrow> pystr" where
  "sub_special U text = filter (is_kept U) text"

text \<open>\<^verbatim>\<open>text.strip()\<close>: leading and trailing whitespace is removed.\<close>

definition strip :: "pystr \<Rightarrow> pystr" where
  "strip text = rev (dropWhile is_space (rev (dropWhile is_space text)))"

definition clean_text :: "(nat \<Rightarrow> bool) \<Rightarrow> pystr \<Rightarrow> pystr" where
  "clean_text U text = strip (sub_special U (sub_whitespace text))"

text \<open>
  The shape of cleaned text: whitelist characters only, no whitespace other than the
  ASCII space, none of it at either end.
\<close>

definition cleaned :: "(nat \<Rightarrow> bool) \<Rightarrow> pystr \<Rightarrow> bool" where
  "cleaned U t =
     (list_all (\<lambda>c. is_word U c \<or> c = 32 \<or> is_punct c) t
      \<and> list_all (\<lambda>c. is_space c \<longrightarrow> c = 32) t
      \<and> (t = [] \<or> (\<not> is_space (hd t) \<and> \<not> is_space (last t))))"

section \<open>The external collaborators\<close>

text \<open>
  The libraries, the external programs, the network and the file system are not part
  of the repository. What they do during one run of the script is a value of type
  \<open>world\<close>; every \<^verbatim>\<open>raise\<close> of a collaborator is an alternative of its answer.
\<close>

datatype exn = Exception pystr

text \<open>
  One call of \<^verbatim>\<open>page.extract_text()\<close>: it raises, returns \<^verbatim>\<open>None\<close>, or returns a
  string. A reader is the list of its pages in order; a reader that cannot be opened
  is \<open>None\<close>.
\<close>

datatype page_result = Page_Raises | Page_None | Page_Str pystr

text \<open>
  \<^verbatim>\<open>download_file\<close> fails before or after the local file has been opened for
  writing (\<open>Download_Failed opened\<close>).
\<close>

datatype download_outcome = Downloaded | Download_Failed bool

record docx_document =
  paragraphs :: "pystr list"
  tables :: "pystr list list list"

record world =
  imports_ok :: bool
  existing_files :: "pystr set"
  tmp_name :: pystr
  url_extension :: pystr
  head_content_type :: "pystr option"
  download :: download_outcome
  pdfplumber :: "page_result list option"
  pypdf2 :: "page_result list option"
  pdftotext :: "(int \<times> pystr) option"
  docx :: "docx_document option"
  antiword :: "(int \<times> pystr) option"
  time_in_try :: "exn + pystr"
  time_in_except :: "exn + pystr"
  post_ok :: bool
  success_print_ok :: bool

text \<open>
  \<^item> \<open>imports_ok\<close>: the imports at the head of the script succeed;
  \<^item> \<open>existing_files\<close>: the paths that exist when \<^verbatim>\<open>process_file\<close> starts;
  \<^item> \<open>tmp_name\<close>: the path of the file that \<^verbatim>\<open>NamedTemporaryFile(delete=False)\<close> creates;
  \<^item> \<open>url_extension\<close>: \<^verbatim>\<open>os.path.splitext(urlparse(file_url).path)[1].lower()\<close>;
  \<^item> \<open>head_content_type\<close>: the lower-cased \<^verbatim>\<open>content-type\<close> of the HEAD probe
    (the empty string when the header is absent), \<open>None\<close> when the probe raises;
  \<^item> \<open>pdfplumber\<close>, \<open>pypdf2\<close>: the two PDF readers on the downloaded file;
  \<^item> \<open>pdftotext\<close>, \<open>antiword\<close>: return code and standard output of the external
    program, \<open>None\<close> when \<^verbatim>\<open>subprocess.run\<close> raises (time-out, missing program);
  \<^item> \<open>docx\<close>: the parsed document, \<open>None\<close> when anything in the parsing raises;
  \<^item> \<open>time_in_try\<close>, \<open>time_in_except\<close>: the answers of the time service to the
    lookup of the success branch and to the lookup of the exception handler;
  \<^item> \<open>post_ok\<close>: the callback POST goes through;
  \<^item> \<open>success_print_ok\<close>: the \<^verbatim>\<open>print\<close> of line 245 does not raise, that is, the
    standard output can encode U+2705, the first character of its message.
\<close>

section \<open>The extractors\<close>

subsection \<open>PDF\<close>

text \<open>
  The page loop of methods 1 and 2. The variable \<^verbatim>\<open>text\<close> is threaded through; the
  flag tells whether the loop was left by an exception. What had been appended to
  \<^verbatim>\<open>text\<close> before the exception stays in it.
\<close>

fun read_pages :: "page_result list \<Rightarrow> pystr \<Rightarrow> pystr \<times> bool" where
  "read_pages [] text = (text, False)"
| "read_pages (Page_Raises # ps) text = (text, True)"
| "read_pages (Page_None # ps) text = read_pages ps text"
| "read_pages (Page_Str page_text # ps) text =
     read_pages ps (if page_text \<noteq> [] then text @ page_text @ [10] else text)"

definition run_reader :: "page_result list option \<Rightarrow> pystr \<Rightarrow> pystr \<times> bool" where
  "run_reader reader text =
     (case reader of None \<Rightarrow> (text, True) | Some ps \<Rightarrow> read_pages ps text)"

datatype backend = Pdfplumber | PyPDF2 | Pdftotext

text \<open>
  \<^verbatim>\<open>extract_text_from_pdf\<close> returns the text; the model also returns the backends
  that were run, in order. \<^verbatim>\<open>text\<close> is set to the empty string once, before
  method 1, and method 2 goes on appending to it.
\<close>

definition extract_text_from_pdf :: "(nat \<Rightarrow> bool) \<Rightarrow> world \<Rightarrow> pystr \<times> backend list" where
  "extract_text_from_pdf U w =
     (let (text1, raised1) = run_reader (pdfplumber w) [] in
      if \<not> raised1 \<and> strip text1 \<noteq> [] then (clean_text U text1, [Pdfplumber])
      else
        let (text2, raised2) = run_reader (pypdf2 w) text1 in
        if \<not> raised2 \<and> strip text2 \<noteq> [] then (clean_text U text2, [Pdfplumber, PyPDF2])
        else
          (case pdftotext w of
             None \<Rightarrow> []
           | Some (returncode, stdout) \<Rightarrow>
               if returncode = 0 \<and> strip stdout \<noteq> [] then clean_text U stdout else [],
           [Pdfplumber, PyPDF2, Pdftotext]))"

subsection \<open>DOCX and DOC\<close>

definition docx_raw_text :: "docx_document \<Rightarrow> pystr" where
  "docx_raw_text doc =
     (let paragraph_text = foldl (\<lambda>text paragraph. text @ paragraph @ [10]) [] (paragraphs doc)
      in foldl (\<lambda>text table.
           foldl (\<lambda>text row. foldl (\<lambda>text cell. text @ cell @ [32]) text row @ [10]) text table)
           paragraph_text (tables doc))"

definition extract_text_from_docx :: "(nat \<Rightarrow> bool) \<Rightarrow> world \<Rightarrow> pystr" where
  "extract_text_from_docx U w =
     (case docx w of None \<Rightarrow> [] | Some doc \<Rightarrow> clean_text U (docx_raw_text doc))"

definition extract_text_from_doc :: "(nat \<Rightarrow> bool) \<Rightarrow> world \<Rightarrow> pystr" where
  "extract_text_from_doc U w =
     (case antiword w of
        None \<Rightarrow> []
      | Some (returncode, stdout) \<Rightarrow> if returncode = 0 then clean_text U stdout else [])"

section \<open>The pipeline\<close>

record processing_info =
  info_method :: pystr
  info_timestamp :: pystr

text \<open>
  The result dictionary; a key that may be absent is an optional field. The two
  fields of \<open>processing_info\<close> are the keys \<^verbatim>\<open>method\<close> and \<^verbatim>\<open>timestamp\<close>.
\<close>

record result =
  success :: bool
  application_id :: pystr
  extracted_text :: "pystr option"
  file_type :: "pystr option"
  text_length :: "nat option"
  error :: "pystr option"
  processing_info :: processing_info

text \<open>
  What one call of \<^verbatim>\<open>process_file\<close> leaves behind: the value it returns, or the
  exception that leaves it; the paths that exist afterwards; the results for which the
  callback POST was attempted, each with whether the POST went through.
\<close>

record outcome =
  returned :: "exn + result"
  files :: "pystr set"
  posts :: "(result \<times> bool) list"

definition download_file :: "world \<Rightarrow> pystr \<Rightarrow> pystr set \<Rightarrow> bool \<times> pystr set" where
  "download_file w filename fs =
     (case download w of
        Downloaded \<Rightarrow> (True, insert filename fs)
      | Download_Failed opened \<Rightarrow> (False, if opened then insert filename fs else fs))"

text \<open>Lines 134 to 149: the extension of the URL path, else the HEAD probe.\<close>

definition resolve_extension :: "world \<Rightarrow> pystr" where
  "resolve_extension w =
     (if url_extension w \<noteq> [] then url_extension w
      else
        (case head_content_type w of
           None \<Rightarrow> []
         | Some content_type \<Rightarrow>
             if py_in (str ''pdf'') content_type then str ''.pdf''
             else if py_in (str ''wordprocessingml'') content_type then str ''.docx''
             else if py_in (str ''msword'') content_type then str ''.doc''
             else []))"

text \<open>Lines 164 to 174: the extractor is chosen by the extension.\<close>

definition select_extractor :: "(nat \<Rightarrow> bool) \<Rightarrow> world \<Rightarrow> pystr \<Rightarrow> exn + pystr" where
  "select_extractor U w file_extension =
     (if file_extension = str ''.pdf'' then Inr (fst (extract_text_from_pdf U w))
      else if file_extension = str ''.docx'' then Inr (extract_text_from_docx U w)
      else if file_extension = str ''.doc'' then Inr (extract_text_from_doc U w)
      else Inl (Exception (str ''Unsupported file type: '' @ file_extension)))"

text \<open>The body of the \<^verbatim>\<open>try\<close>, lines 156 to 193.\<close>

definition try_block ::
  "(nat \<Rightarrow> bool) \<Rightarrow> world \<Rightarrow> pystr \<Rightarrow> pystr \<Rightarrow> pystr \<Rightarrow> pystr set \<Rightarrow> (exn + result) \<times> pystr set"
where
  "try_block U w app_id file_extension tmp_filename fs =
     (let (downloaded, fs') = download_file w tmp_filename fs in
      if \<not> downloaded then (Inl (Exception (str ''Failed to download file'')), fs')
      else
        (case select_extractor U w file_extension of
           Inl e \<Rightarrow> (Inl e, fs')
         | Inr text \<Rightarrow>
             if strip text = [] then
               (Inl (Exception (str ''No text could be extracted from the file'')), fs')
             else
               (case time_in_try w of
                  Inl e \<Rightarrow> (Inl e, fs')
                | Inr now \<Rightarrow>
                    (Inr \<lparr>success = True, application_id = app_id,
                          extracted_text = Some text, file_type = Some file_extension,
                          text_length = Some (length text), error = None,
                          processing_info =
                            \<lparr>info_method = str ''github_actions'', info_timestamp = now\<rparr>\<rparr>,
                     fs'))))"

text \<open>
  The handler, lines 195 to 205. \<^verbatim>\<open>str(e)\<close> is the message of the exception. The
  time lookup of the handler is not guarded: its exception leaves \<^verbatim>\<open>process_file\<close>.
\<close>

definition except_block :: "world \<Rightarrow> pystr \<Rightarrow> exn \<Rightarrow> exn + result" where
  "except_block w app_id e =
     (case e of Exception message \<Rightarrow>
        (case time_in_except w of
           Inl e' \<Rightarrow> Inl e'
         | Inr now \<Rightarrow>
             Inr \<lparr>success = False, application_id = app_id,
                  extracted_text = None, file_type = None, text_length = None,
                  error = Some message,
                  processing_info = \<lparr>info_method = str ''github_actions'', info_timestamp = now\<rparr>\<rparr>))"

text \<open>
  \<^verbatim>\<open>process_file\<close>. The arguments \<^verbatim>\<open>file_url\<close>, \<^verbatim>\<open>callback_url\<close> and
  \<^verbatim>\<open>auth_token\<close> only reach the collaborators, whose answers are in \<open>w\<close>.
\<close>

definition process_file :: "(nat \<Rightarrow> bool) \<Rightarrow> world \<Rightarrow> pystr \<Rightarrow> outcome" where
  "process_file U w app_id =
     (let tmp_file = tmp_name w;
          fs0 = insert tmp_file (existing_files w);
          file_extension = resolve_extension w;
          tmp_filename = (if file_extension \<noteq> [] then tmp_file @ file_extension else tmp_file);
          (tried, fs1) = try_block U w app_id file_extension tmp_filename fs0;
          handled = (case tried of Inl e \<Rightarrow> except_block w app_id e | Inr r \<Rightarrow> Inr r);
          fs2 = fs1 - {tmp_filename}
      in case handled of
           Inl e \<Rightarrow> \<lparr>returned = Inl e, files = fs2, posts = []\<rparr>
         | Inr r \<Rightarrow> \<lparr>returned = Inr r, files = fs2, posts = [(r, post_ok w)]\<rparr>)"


section \<open>The fallback chain as the specification words it\<close>

text \<open>
  The raw output of one backend run on its own, with \<^verbatim>\<open>text\<close> empty at its start:
  \<open>None\<close> when the backend fails (an exception, a return code other than 0).
\<close>

definition backend_output :: "world \<Rightarrow> backend \<Rightarrow> pystr option" where
  "backend_output w b =
     (case b of
        Pdfplumber \<Rightarrow>
          (case run_reader (pdfplumber w) [] of (t, raised) \<Rightarrow> if raised then None else Some t)
      | PyPDF2 \<Rightarrow>
          (case run_reader (pypdf2 w) [] of (t, raised) \<Rightarrow> if raised then None else Some t)
      | Pdftotext \<Rightarrow>
          (case pdftotext w of
             None \<Rightarrow> None
           | Some (returncode, stdout) \<Rightarrow> if returncode = 0 then Some stdout else None))"

text \<open>The cleaned text a backend yields on its own; empty when it fails.\<close>

definition yields :: "(nat \<Rightarrow> bool) \<Rightarrow> world \<Rightarrow> backend \<Rightarrow> pystr" where
  "yields U w b = (case backend_output w b of None \<Rightarrow> [] | Some t \<Rightarrow> clean_text U t)"

text \<open>
  The chain in the words of the specification: the backends in order, stopping at the
  first that yields non-empty cleaned text, the empty string when none does.
\<close>

definition chain_on_cleaned_text :: "(nat \<Rightarrow> bool) \<Rightarrow> world \<Rightarrow> pystr \<times> backend list" where
  "chain_on_cleaned_text U w =
     (if yields U w Pdfplumber \<noteq> [] then (yields U w Pdfplumber, [Pdfplumber])
      else if yields U w PyPDF2 \<noteq> [] then (yields U w PyPDF2, [Pdfplumber, PyPDF2])
      else (yields U w Pdftotext, [Pdfplumber, PyPDF2, Pdftotext]))"

text \<open>
  The chain with the test that the code makes: a backend is taken when its raw output
  has a character that is not whitespace, and what is returned is the cleaned output,
  which can be empty.
\<close>

definition nonblank_output :: "world \<Rightarrow> backend \<Rightarrow> pystr option" where
  "nonblank_output w b =
     (case backend_output w b of
        None \<Rightarrow> None
      | Some t \<Rightarrow> if strip t \<noteq> [] then Some t else None)"

definition chain_on_raw_text :: "(nat \<Rightarrow> bool) \<Rightarrow> world \<Rightarrow> pystr \<times> backend list" where
  "chain_on_raw_text U w =
     (case nonblank_output w Pdfplumber of
        Some t \<Rightarrow> (clean_text U t, [Pdfplumber])
      | None \<Rightarrow>
          (case nonblank_output w PyPDF2 of
             Some t \<Rightarrow> (clean_text U t, [Pdfplumber, PyPDF2])
           | None \<Rightarrow>
               (case nonblank_output w Pdftotext of
                  Some t \<Rightarrow> (clean_text U t, [Pdfplumber, PyPDF2, Pdftotext])
                | None \<Rightarrow> ([], [Pdfplumber, PyPDF2, Pdftotext]))))"

text \<open>
  A backend produces nothing: whether it fails or not, it delivers no character
  other than whitespace.
\<close>

definition produces_nothing :: "world \<Rightarrow> backend \<Rightarrow> bool" where
  "produces_nothing w b =
     (case b of
        Pdfplumber \<Rightarrow> strip (fst (run_reader (pdfplumber w) [])) = []
      | PyPDF2 \<Rightarrow> strip (fst (run_reader (pypdf2 w) [])) = []
      | Pdftotext \<Rightarrow>
          (case pdftotext w of
             None \<Rightarrow> True
           | Some (returncode, stdout) \<Rightarrow> returncode \<noteq> 0 \<or> strip stdout = []))"

section \<open>Example worlds\<close>

text \<open>
  A world in which every collaborator fails or answers with nothing; the examples
  below change the fields they are about.
\<close>

definition quiet_world :: world where
  "quiet_world =
     \<lparr>imports_ok = True, existing_files = {}, tmp_name = str ''/tmp/tmpab12'',
      url_extension = str ''.pdf'', head_content_type = None,
      download = Downloaded, pdfplumber = None, pypdf2 = None, pdftotext = None,
      docx = None, antiword = None,
      time_in_try = Inr (str ''2024-01-01T00:00:00+00:00''),
      time_in_except = Inr (str ''2024-01-01T00:00:00+00:00''),
      post_ok = True, success_print_ok = True\<rparr>"

text \<open>The first reader delivers one page of text.\<close>

definition hello_world :: world where
  "hello_world = quiet_world\<lparr>pdfplumber := Some [Page_Str (str ''Hello'')]\<rparr>"

text \<open>The same run on a standard output that cannot encode U+2705.\<close>

definition ascii_stdout_world :: world where
  "ascii_stdout_world = hello_world\<lparr>success_print_ok := False\<rparr>"

text \<open>
  The first reader delivers a page of characters that the cleaner deletes; the second
  reader delivers text.
\<close>

definition symbols_world :: world where
  "symbols_world =
     quiet_world\<lparr>pdfplumber := Some [Page_Str (str ''@@@'')],
                 pypdf2 := Some [Page_Str (str ''Hello'')]\<rparr>"

text \<open>
  The first reader delivers its first page and raises on the second; the second reader
  delivers both pages.
\<close>

definition partial_world :: world where
  "partial_world =
     quiet_world\<lparr>pdfplumber := Some [Page_Str (str ''Hello''), Page_Raises],
                 pypdf2 := Some [Page_Str (str ''Hello''), Page_Str (str ''World'')]\<rparr>"

text \<open>The first reader raises after a page of whitespace.\<close>

definition blank_then_raise_world :: world where
  "blank_then_raise_world =
     quiet_world\<lparr>pdfplumber := Some [Page_Str (str '' ''), Page_Raises],
                 pypdf2 := Some [Page_Str (str ''Hello'')]\<rparr>"

text \<open>A PDF on which the three backends run and return nothing.\<close>

definition empty_pdf_world :: world where
  "empty_pdf_world =
     quiet_world\<lparr>pdfplumber := Some [Page_None], pypdf2 := Some [Page_Str []],
                 pdftotext := Some (0, [])\<rparr>"

text \<open>The download fails and the time service cannot be reached.\<close>

definition time_down_world :: world where
  "time_down_world =
     quiet_world\<lparr>download := Download_Failed False,
                 time_in_try := Inl (Exception (str ''ConnectionError'')),
                 time_in_except := Inl (Exception (str ''ConnectionError''))\<rparr>"

text \<open>
  The DOCX of the specification's example: two paragraphs and one table of one row and
  two cells.
\<close>

definition example_docx :: docx_document where
  "example_docx =
     \<lparr>paragraphs = [str ''Name: Jane Doe'', str ''Skills: C++, networking''],
      tables = [[[str ''Email'', str ''j@x.com'']]]\<rparr>"

definition docx_world :: world where
  "docx_world = quiet_world\<lparr>url_extension := str ''.docx'', docx := Some example_docx\<rparr>"

section \<open>Properties of the text cleaner\<close>

lemmas world_defs = quiet_world_def hello_world_def symbols_world_def partial_world_def
  ascii_stdout_world_def
  blank_then_raise_world_def empty_pdf_world_def time_down_world_def docx_world_def
  example_docx_def

lemmas chain_defs = extract_text_from_pdf_def run_reader_def backend_output_def yields_def
  nonblank_output_def chain_on_cleaned_text_def chain_on_raw_text_def

lemmas pipeline_defs = process_file_def try_block_def except_block_def select_extractor_def
  download_file_def resolve_extension_def Let_def

lemmas char_class_defs =
  str_def is_space_def is_word_def ascii_word_def is_punct_def is_kept_def ascii_only_def

lemmas cleaner_defs = clean_text_def strip_def sub_special_def

lemma sub_whitespace_space:
  "c \<in> set (sub_whitespace t) \<Longrightarrow> is_space c \<Longrightarrow> c = 32"
  by (induction t rule: sub_whitespace.induct) (auto split: if_splits)

lemma set_strip: "set (strip t) \<subseteq> set t"
  unfolding strip_def by (auto dest!: set_dropWhileD)

lemma strip_ends:
  assumes "strip t \<noteq> []"
  shows "\<not> is_space (hd (strip t)) \<and> \<not> is_space (last (strip t))"
proof -
  define u where "u = dropWhile is_space t"
  define v where "v = dropWhile is_space (rev u)"
  have sv: "strip t = rev v" by (simp add: strip_def u_def v_def)
  with assms have vne: "v \<noteq> []" by simp
  then have hv: "\<not> is_space (hd v)" unfolding v_def by (simp add: hd_dropWhile)
  from vne have une: "u \<noteq> []" unfolding v_def by auto
  then have hu: "\<not> is_space (hd u)" unfolding u_def by (simp add: hd_dropWhile)
  have "rev u = takeWhile is_space (rev u) @ v" unfolding v_def by simp
  then have "last (rev u) = last v" using vne by (metis last_appendR)
  then have "last v = hd u" using une by (simp add: last_rev)
  then show ?thesis using hv hu vne sv by (simp add: hd_rev last_rev)
qed

lemma cleaned_Nil: "cleaned U []"
  by (simp add: cleaned_def)

lemma cleaned_clean_text: "cleaned U (clean_text U x)"
proof -
  let ?s = "sub_special U (sub_whitespace x)"
  have sp: "\<forall>c \<in> set ?s. is_space c \<longrightarrow> c = 32"
    by (auto simp: sub_special_def dest: sub_whitespace_space)
  have kept: "\<forall>c \<in> set ?s. is_kept U c"
    by (simp add: sub_special_def)
  have sub: "set (clean_text U x) \<subseteq> set ?s"
    by (simp add: clean_text_def set_strip)
  have a: "list_all (\<lambda>c. is_space c \<longrightarrow> c = 32) (clean_text U x)"
    using sp sub by (auto simp: list_all_iff)
  have b: "list_all (\<lambda>c. is_word U c \<or> c = 32 \<or> is_punct c) (clean_text U x)"
    using sp kept sub by (auto simp: list_all_iff is_kept_def)
  have c: "clean_text U x = [] \<or>
      (\<not> is_space (hd (clean_text U x)) \<and> \<not> is_space (last (clean_text U x)))"
    unfolding clean_text_def using strip_ends by blast
  show ?thesis unfolding cleaned_def using a b c by blast
qed

lemma extract_text_from_pdf_cases:
  "fst (extract_text_from_pdf U w) = [] \<or> (\<exists>raw. fst (extract_text_from_pdf U w) = clean_text U raw)"
  by (auto simp: extract_text_from_pdf_def Let_def split: prod.splits option.splits)

lemma extract_text_from_docx_cases:
  "extract_text_from_docx U w = [] \<or> (\<exists>raw. extract_text_from_docx U w = clean_text U raw)"
  by (auto simp: extract_text_from_docx_def split: option.splits)

lemma extract_text_from_doc_cases:
  "extract_text_from_doc U w = [] \<or> (\<exists>raw. extract_text_from_doc U w = clean_text U raw)"
  by (auto simp: extract_text_from_doc_def split: option.splits)

lemma cleaned_extract_text_from_pdf: "cleaned U (fst (extract_text_from_pdf U w))"
  using extract_text_from_pdf_cases [of U w] by (auto simp: cleaned_Nil cleaned_clean_text)

lemma cleaned_extract_text_from_docx: "cleaned U (extract_text_from_docx U w)"
  using extract_text_from_docx_cases [of U w] by (auto simp: cleaned_Nil cleaned_clean_text)

lemma cleaned_extract_text_from_doc: "cleaned U (extract_text_from_doc U w)"
  using extract_text_from_doc_cases [of U w] by (auto simp: cleaned_Nil cleaned_clean_text)

text \<open>
  Claim C4. The claim: \<^verbatim>\<open>clean_text\<close> is idempotent. The code is not: the whitespace
  runs are collapsed before the characters outside the whitelist are deleted, so a
  deleted character that stood between two spaces leaves two adjacent spaces behind,
  which a second application collapses. On \<^verbatim>\<open>"a @ b"\<close> the first application gives
  \<^verbatim>\<open>"a  b"\<close> (two spaces) and the second gives \<^verbatim>\<open>"a b"\<close>.
\<close>

theorem clean_text_not_idempotent:
  "clean_text U (str ''a @ b'') = str ''a  b''
   \<and> clean_text U (clean_text U (str ''a @ b'')) = str ''a b''
   \<and> clean_text U (clean_text U (str ''a @ b'')) \<noteq> clean_text U (str ''a @ b'')"
  by (simp add: char_class_defs cleaner_defs)

text \<open>
  Claim C10. For every input, the output of \<^verbatim>\<open>clean_text\<close> has whitelist characters
  only (word characters, the ASCII space and the punctuation \<^verbatim>\<open>- . , ; : ( ) [ ]\<close>),
  its only whitespace character is the ASCII space, and it neither starts nor ends
  with whitespace. Each of the three extractors returns the empty string or
  \<^verbatim>\<open>clean_text\<close> of some raw text, so what it returns has this shape too.
\<close>

theorem extractors_return_cleaned_text:
  "cleaned U (clean_text U x)
   \<and> (fst (extract_text_from_pdf U w) = []
        \<or> (\<exists>raw. fst (extract_text_from_pdf U w) = clean_text U raw))
   \<and> (extract_text_from_docx U w = [] \<or> (\<exists>raw. extract_text_from_docx U w = clean_text U raw))
   \<and> (extract_text_from_doc U w = [] \<or> (\<exists>raw. extract_text_from_doc U w = clean_text U raw))
   \<and> cleaned U (fst (extract_text_from_pdf U w))
   \<and> cleaned U (extract_text_from_docx U w)
   \<and> cleaned U (extract_text_from_doc U w)"
  using cleaned_clean_text extract_text_from_pdf_cases extract_text_from_docx_cases
    extract_text_from_doc_cases cleaned_extract_text_from_pdf cleaned_extract_text_from_docx
    cleaned_extract_text_from_doc
  by blast

theorem extractors_return_cleaned_text_witness:
  "clean_text ascii_only (str '' a @ b+  '') = str ''a  b''
   \<and> cleaned ascii_only (str ''a  b'')
   \<and> extract_text_from_doc ascii_only
        (quiet_world\<lparr>antiword := Some (0, str '' a @ b+  '')\<rparr>) = str ''a  b''
   \<and> cleaned ascii_only
        (extract_text_from_doc ascii_only
           (quiet_world\<lparr>antiword := Some (0, str '' a @ b+  '')\<rparr>))"
  using extractors_return_cleaned_text
    [of ascii_only "str '' a @ b+  ''" "quiet_world\<lparr>antiword := Some (0, str '' a @ b+  '')\<rparr>"]
  by (simp add: char_class_defs cleaner_defs extract_text_from_doc_def quiet_world_def)

section \<open>Properties of the PDF fallback chain\<close>

lemma read_pages_acc:
  "read_pages ps acc = (acc @ fst (read_pages ps []), snd (read_pages ps []))"
proof (induction ps arbitrary: acc)
  case Nil
  show ?case by simp
next
  case (Cons p ps)
  show ?case
  proof (cases p)
    case Page_Raises
    then show ?thesis by simp
  next
    case Page_None
    then show ?thesis using Cons.IH [of acc] by simp
  next
    case (Page_Str s)
    show ?thesis
    proof (cases "s = []")
      case True
      with Page_Str show ?thesis using Cons.IH [of acc] by simp
    next
      case False
      with Page_Str show ?thesis
        using Cons.IH [of "acc @ s @ [10]"] Cons.IH [of "s @ [10]"] by simp
    qed
  qed
qed

lemma run_reader_acc:
  "run_reader r acc = (acc @ fst (run_reader r []), snd (run_reader r []))"
  using read_pages_acc [of _ acc] by (cases r) (simp_all add: run_reader_def)

lemma strip_Nil_iff: "strip t = [] \<longleftrightarrow> (\<forall>c \<in> set t. is_space c)"
proof
  assume "strip t = []"
  then have "dropWhile is_space (rev (dropWhile is_space t)) = []" by (simp add: strip_def)
  then have "\<forall>c \<in> set (rev (dropWhile is_space t)). is_space c"
    unfolding dropWhile_eq_Nil_conv .
  then have all: "\<forall>c \<in> set (dropWhile is_space t). is_space c"
    unfolding set_rev .
  have "dropWhile is_space t = []"
  proof (rule ccontr)
    assume ne: "dropWhile is_space t \<noteq> []"
    then have "\<not> is_space (hd (dropWhile is_space t))" by (simp add: hd_dropWhile)
    moreover have "hd (dropWhile is_space t) \<in> set (dropWhile is_space t)" using ne by simp
    ultimately show False using all by blast
  qed
  then show "\<forall>c \<in> set t. is_space c" unfolding dropWhile_eq_Nil_conv .
next
  assume "\<forall>c \<in> set t. is_space c"
  then show "strip t = []" by (auto simp: strip_def dest: set_dropWhileD)
qed

lemma strip_blank_prefix:
  assumes "strip ws = []"
  shows "strip (ws @ t) = strip t"
proof -
  from assms have "\<And>c. c \<in> set ws \<Longrightarrow> is_space c" by (simp add: strip_Nil_iff)
  then have "dropWhile is_space (ws @ t) = dropWhile is_space t" by (rule dropWhile_append2)
  then show ?thesis by (simp add: strip_def)
qed

lemma is_space_32: "is_space 32"
  by (simp add: is_space_def)

lemma strip_space_Cons: "is_space c \<Longrightarrow> strip (c # t) = strip t"
  by (simp add: strip_def)

lemma clean_text_space_Cons:
  assumes "is_space c"
  shows "clean_text U (c # t) = clean_text U (dropWhile is_space t)"
proof -
  have "sub_special U (sub_whitespace (c # t))
      = 32 # sub_special U (sub_whitespace (dropWhile is_space t))"
    using assms by (simp add: sub_special_def is_kept_def is_space_32)
  then show ?thesis by (simp add: clean_text_def strip_space_Cons is_space_32)
qed

lemma clean_text_dropWhile: "clean_text U (dropWhile is_space t) = clean_text U t"
  by (cases t) (simp_all add: clean_text_space_Cons)

lemma clean_text_blank_prefix:
  assumes "strip ws = []"
  shows "clean_text U (ws @ t) = clean_text U t"
proof -
  from assms have "\<And>c. c \<in> set ws \<Longrightarrow> is_space c" by (simp add: strip_Nil_iff)
  then have "dropWhile is_space (ws @ t) = dropWhile is_space t" by (rule dropWhile_append2)
  then have "clean_text U (dropWhile is_space (ws @ t)) = clean_text U (dropWhile is_space t)"
    by simp
  then show ?thesis by (simp only: clean_text_dropWhile)
qed

text \<open>
  Claim C2. The claim: when backend 1 fails and backend 2 succeeds, the extractor
  returns what backend 2 returns on its own, and backend 3 is not run. The code sets
  \<^verbatim>\<open>text\<close> to the empty string once, before method 1, and not again before method 2:
  when pdfplumber raises on a later page, the pages it had read stay in \<^verbatim>\<open>text\<close> and
  PyPDF2 appends to them. In \<open>partial_world\<close> pdfplumber reads \<^verbatim>\<open>"Hello"\<close> and raises
  on page 2, PyPDF2 reads \<^verbatim>\<open>"Hello"\<close> and \<^verbatim>\<open>"World"\<close>: the extractor returns
  \<^verbatim>\<open>"Hello Hello World"\<close>, PyPDF2 on its own yields \<^verbatim>\<open>"Hello World"\<close>.
\<close>

theorem partial_pdfplumber_text_leaks:
  "extract_text_from_pdf U partial_world = (str ''Hello Hello World'', [Pdfplumber, PyPDF2])
   \<and> backend_output partial_world Pdfplumber = None
   \<and> yields U partial_world PyPDF2 = str ''Hello World''
   \<and> fst (extract_text_from_pdf U partial_world) \<noteq> yields U partial_world PyPDF2"
  by (simp add: world_defs chain_defs char_class_defs cleaner_defs)

text \<open>
  Claim C5, as stated: the extractor stops at the first backend that yields non-empty
  cleaned text. It fails in \<open>symbols_world\<close>: pdfplumber delivers \<^verbatim>\<open>"@@@"\<close>, which is
  not blank, so the extractor returns its cleaned text, the empty string, and PyPDF2,
  which would yield \<^verbatim>\<open>"Hello"\<close>, is never run.
\<close>

theorem chain_on_cleaned_text_counterexample:
  "extract_text_from_pdf ascii_only symbols_world = ([], [Pdfplumber])
   \<and> chain_on_cleaned_text ascii_only symbols_world = (str ''Hello'', [Pdfplumber, PyPDF2])
   \<and> extract_text_from_pdf ascii_only symbols_world \<noteq> chain_on_cleaned_text ascii_only symbols_world"
  by (simp add: world_defs chain_defs char_class_defs cleaner_defs)

text \<open>
  Claim C5, amended. The extractor tries pdfplumber, PyPDF2 and pdftotext in this
  order and stops at the first whose raw output has a character that is not
  whitespace; it returns the cleaned text of that output, and the empty string when no
  backend has such output. This is stated for the runs in which pdfplumber, if it
  raises, had read nothing but whitespace before.
\<close>

theorem extract_text_from_pdf_chain:
  assumes "snd (run_reader (pdfplumber w) []) \<longrightarrow> strip (fst (run_reader (pdfplumber w) [])) = []"
  shows "extract_text_from_pdf U w = chain_on_raw_text U w"
proof -
  obtain t1 r1 where one: "run_reader (pdfplumber w) [] = (t1, r1)"
    by (cases "run_reader (pdfplumber w) []")
  obtain t2 r2 where two: "run_reader (pypdf2 w) [] = (t2, r2)"
    by (cases "run_reader (pypdf2 w) []")
  have acc: "run_reader (pypdf2 w) t1 = (t1 @ t2, r2)"
    using run_reader_acc [of "pypdf2 w" t1] two by simp
  show ?thesis
  proof (cases "\<not> r1 \<and> strip t1 \<noteq> []")
    case True
    then show ?thesis using one
      by (simp add: extract_text_from_pdf_def chain_on_raw_text_def nonblank_output_def
          backend_output_def)
  next
    case False
    then have blank: "strip t1 = []" using assms one by auto
    have s: "strip (t1 @ t2) = strip t2" using blank by (rule strip_blank_prefix)
    have c: "clean_text U (t1 @ t2) = clean_text U t2"
      using blank by (rule clean_text_blank_prefix)
    show ?thesis using one two acc blank s c
      by (auto simp: extract_text_from_pdf_def chain_on_raw_text_def nonblank_output_def
          backend_output_def split: option.splits)
  qed
qed

theorem extract_text_from_pdf_chain_witness:
  "snd (run_reader (pdfplumber blank_then_raise_world) [])
   \<and> strip (fst (run_reader (pdfplumber blank_then_raise_world) [])) = []
   \<and> chain_on_raw_text ascii_only blank_then_raise_world = (str ''Hello'', [Pdfplumber, PyPDF2])
   \<and> extract_text_from_pdf ascii_only blank_then_raise_world = (str ''Hello'', [Pdfplumber, PyPDF2])"
proof -
  have raised: "snd (run_reader (pdfplumber blank_then_raise_world) [])"
    by (simp add: world_defs run_reader_def str_def)
  have blank: "strip (fst (run_reader (pdfplumber blank_then_raise_world) [])) = []"
    by (simp add: world_defs run_reader_def char_class_defs cleaner_defs)
  have spec: "chain_on_raw_text ascii_only blank_then_raise_world
      = (str ''Hello'', [Pdfplumber, PyPDF2])"
    by (simp add: world_defs run_reader_def backend_output_def nonblank_output_def
        chain_on_raw_text_def char_class_defs cleaner_defs)
  from blank have "extract_text_from_pdf ascii_only blank_then_raise_world
      = chain_on_raw_text ascii_only blank_then_raise_world"
    by (intro extract_text_from_pdf_chain) simp
  with raised blank spec show ?thesis by simp
qed

section \<open>Properties of the DOCX extractor\<close>

text \<open>
  Claim C8, as stated: the cleaned text of the example document contains the four
  fragments. It does not: \<^verbatim>\<open>+\<close> and \<^verbatim>\<open>@\<close> are outside the whitelist of the cleaner,
  so \<^verbatim>\<open>"Skills: C++, networking"\<close> and \<^verbatim>\<open>"j@x.com"\<close> do not occur in it.
\<close>

theorem docx_example_counterexample:
  "\<not> (py_in (str ''Name: Jane Doe'') (extract_text_from_docx ascii_only docx_world)
      \<and> py_in (str ''Skills: C++, networking'') (extract_text_from_docx ascii_only docx_world)
      \<and> py_in (str ''Email'') (extract_text_from_docx ascii_only docx_world)
      \<and> py_in (str ''j@x.com'') (extract_text_from_docx ascii_only docx_world))"
  by (simp add: world_defs extract_text_from_docx_def docx_raw_text_def char_class_defs cleaner_defs)

text \<open>
  Claim C8, amended. The raw text of the example document is the two paragraphs, each
  followed by a newline, then the row of the table with a space after each cell and a
  newline after the row. Its cleaned text is
  \<^verbatim>\<open>"Name: Jane Doe Skills: C, networking Email jx.com"\<close>: the four fragments in the
  order paragraphs, table, the cells joined by a space, without the characters \<^verbatim>\<open>+\<close>
  and \<^verbatim>\<open>@\<close>. This is the text of the result of \<^verbatim>\<open>process_file\<close>, of length 49.
\<close>

theorem docx_example_cleaned:
  "docx_raw_text example_docx
     = str ''Name: Jane Doe'' @ [10] @ str ''Skills: C++, networking'' @ [10]
       @ str ''Email j@x.com '' @ [10]
   \<and> extract_text_from_docx U docx_world = str ''Name: Jane Doe Skills: C, networking Email jx.com''
   \<and> returned (process_file U docx_world app_id) =
       Inr \<lparr>success = True, application_id = app_id,
            extracted_text = Some (str ''Name: Jane Doe Skills: C, networking Email jx.com''),
            file_type = Some (str ''.docx''), text_length = Some 49, error = None,
            processing_info = \<lparr>info_method = str ''github_actions'',
              info_timestamp = str ''2024-01-01T00:00:00+00:00''\<rparr>\<rparr>"
proof -
  have raw: "docx_raw_text example_docx
     = str ''Name: Jane Doe'' @ [10] @ str ''Skills: C++, networking'' @ [10]
       @ str ''Email j@x.com '' @ [10]"
    by (simp add: example_docx_def docx_raw_text_def str_def)
  have ext: "extract_text_from_docx U docx_world
      = str ''Name: Jane Doe Skills: C, networking Email jx.com''"
    by (simp add: world_defs extract_text_from_docx_def docx_raw_text_def char_class_defs
        cleaner_defs)
  have "returned (process_file U docx_world app_id) =
       Inr \<lparr>success = True, application_id = app_id,
            extracted_text = Some (str ''Name: Jane Doe Skills: C, networking Email jx.com''),
            file_type = Some (str ''.docx''), text_length = Some 49, error = None,
            processing_info = \<lparr>info_method = str ''github_actions'',
              info_timestamp = str ''2024-01-01T00:00:00+00:00''\<rparr>\<rparr>"
    by (simp add: world_defs pipeline_defs extract_text_from_docx_def docx_raw_text_def
        char_class_defs cleaner_defs)
  with raw ext show ?thesis by blast
qed

section \<open>Properties of the pipeline\<close>

lemma strip_Nil: "strip [] = []"
  by (simp add: strip_def)

lemma select_extractor_cases:
  assumes "select_extractor U w ext = Inr t"
  shows "t = [] \<or> (\<exists>raw. t = clean_text U raw)"
  using assms extract_text_from_pdf_cases [of U w] extract_text_from_docx_cases [of U w]
    extract_text_from_doc_cases [of U w]
  by (auto simp: select_extractor_def split: if_splits)

lemma try_block_success:
  assumes "try_block U w app_id ext tmp fs = (Inr r, fs')"
  shows "\<exists>t. select_extractor U w ext = Inr t \<and> strip t \<noteq> [] \<and> success r
    \<and> extracted_text r = Some t \<and> text_length r = Some (length t)"
  using assms
  by (auto simp: try_block_def Let_def split: prod.splits if_splits sum.splits)

lemma except_block_failure:
  assumes "except_block w app_id e = Inr r"
  shows "\<not> success r \<and> extracted_text r = None \<and> (\<exists>m. e = Exception m \<and> error r = Some m)"
  using assms by (cases e) (auto simp: except_block_def split: sum.splits)

lemma process_file_returned:
  assumes "returned (process_file U w app_id) = Inr r"
  shows "(\<exists>ext tmp fs fs'. try_block U w app_id ext tmp fs = (Inr r, fs'))
    \<or> (\<exists>e. except_block w app_id e = Inr r)"
  using assms
  by (auto simp: process_file_def Let_def split: prod.splits sum.splits)

text \<open>
  Claim C1. The claim: once \<^verbatim>\<open>process_file\<close> is over, no temporary file that it
  created exists. \<^verbatim>\<open>NamedTemporaryFile(delete=False)\<close> creates a file, and when the
  extension is not empty the code appends it to \<^verbatim>\<open>tmp_filename\<close>: the download goes
  to that second path, and the \<^verbatim>\<open>finally\<close> block removes that second path only. In
  \<open>hello_world\<close>, a successful run on a \<^verbatim>\<open>.pdf\<close> URL that starts with no file, and in
  \<open>time_down_world\<close>, a failing run, the file \<^verbatim>\<open>/tmp/tmpab12\<close> is left behind.
\<close>

theorem temporary_file_left_behind:
  "existing_files hello_world = {}
   \<and> tmp_name hello_world = str ''/tmp/tmpab12''
   \<and> returned (process_file U hello_world app_id) =
       Inr \<lparr>success = True, application_id = app_id, extracted_text = Some (str ''Hello''),
            file_type = Some (str ''.pdf''), text_length = Some 5, error = None,
            processing_info = \<lparr>info_method = str ''github_actions'',
              info_timestamp = str ''2024-01-01T00:00:00+00:00''\<rparr>\<rparr>
   \<and> files (process_file U hello_world app_id) = {str ''/tmp/tmpab12''}
   \<and> files (process_file U time_down_world app_id) = {str ''/tmp/tmpab12''}"
  by (simp add: world_defs pipeline_defs chain_defs char_class_defs cleaner_defs)

text \<open>
  Claim C3. The claim: on every failure path, also when the time lookup fails, the
  callback POST is attempted. The handler of \<^verbatim>\<open>process_file\<close> itself asks the time
  service, outside any \<^verbatim>\<open>try\<close>: in \<open>time_down_world\<close> the download fails, the
  lookup of the handler raises, the exception leaves \<^verbatim>\<open>process_file\<close> and no POST is
  attempted.
\<close>

theorem callback_skipped_when_time_service_down:
  "returned (process_file U time_down_world app_id) = Inl (Exception (str ''ConnectionError''))
   \<and> posts (process_file U time_down_world app_id) = []"
  by (simp add: world_defs pipeline_defs)

text \<open>
  Claim C6. A result with \<^verbatim>\<open>success = True\<close> carries a non-empty text, its
  \<^verbatim>\<open>text_length\<close> is the length of that text, and the text is cleaned text.
\<close>

theorem success_result_carries_text:
  assumes "returned (process_file U w app_id) = Inr r" and "success r"
  shows "\<exists>t. extracted_text r = Some t \<and> t \<noteq> [] \<and> text_length r = Some (length t)
    \<and> (\<exists>raw. t = clean_text U raw) \<and> cleaned U t"
proof -
  from process_file_returned [OF assms(1)] assms(2) except_block_failure
  obtain ext tmp fs fs' where "try_block U w app_id ext tmp fs = (Inr r, fs')"
    by blast
  from try_block_success [OF this] obtain t where
    sel: "select_extractor U w ext = Inr t" and ne: "strip t \<noteq> []"
    and r: "extracted_text r = Some t" "text_length r = Some (length t)"
    by blast
  from ne have "t \<noteq> []" using strip_Nil by auto
  with select_extractor_cases [OF sel] obtain raw where "t = clean_text U raw" by blast
  with r \<open>t \<noteq> []\<close> show ?thesis using cleaned_clean_text by blast
qed

theorem success_result_carries_text_witness:
  "returned (process_file ascii_only hello_world (str ''42'')) =
       Inr \<lparr>success = True, application_id = str ''42'', extracted_text = Some (str ''Hello''),
            file_type = Some (str ''.pdf''), text_length = Some 5, error = None,
            processing_info = \<lparr>info_method = str ''github_actions'',
              info_timestamp = str ''2024-01-01T00:00:00+00:00''\<rparr>\<rparr>
   \<and> (\<exists>t. extracted_text (projr (returned (process_file ascii_only hello_world (str ''42'')))) = Some t
          \<and> t \<noteq> [] \<and> text_length (projr (returned (process_file ascii_only hello_world (str ''42'')))) = Some (length t)
          \<and> cleaned ascii_only t)"
proof -
  have r: "returned (process_file ascii_only hello_world (str ''42'')) =
       Inr \<lparr>success = True, application_id = str ''42'', extracted_text = Some (str ''Hello''),
            file_type = Some (str ''.pdf''), text_length = Some 5, error = None,
            processing_info = \<lparr>info_method = str ''github_actions'',
              info_timestamp = str ''2024-01-01T00:00:00+00:00''\<rparr>\<rparr>"
    by (simp add: world_defs pipeline_defs chain_defs char_class_defs cleaner_defs)
  from success_result_carries_text [OF r] r show ?thesis by simp
qed

text \<open>
  Claim C7, as stated: when the three backends return nothing the error is
  \<^verbatim>\<open>"No text could be extracted."\<close>. In \<open>empty_pdf_world\<close> the error of the result
  is \<^verbatim>\<open>"No text could be extracted from the file"\<close>.
\<close>

theorem empty_pdf_error_counterexample:
  "produces_nothing empty_pdf_world Pdfplumber
   \<and> produces_nothing empty_pdf_world PyPDF2
   \<and> produces_nothing empty_pdf_world Pdftotext
   \<and> returned (process_file ascii_only empty_pdf_world (str ''42'')) =
       Inr \<lparr>success = False, application_id = str ''42'', extracted_text = None,
            file_type = None, text_length = None,
            error = Some (str ''No text could be extracted from the file''),
            processing_info = \<lparr>info_method = str ''github_actions'',
              info_timestamp = str ''2024-01-01T00:00:00+00:00''\<rparr>\<rparr>
   \<and> error (projr (returned (process_file ascii_only empty_pdf_world (str ''42''))))
       \<noteq> Some (str ''No text could be extracted.'')"
  by (simp add: world_defs pipeline_defs chain_defs char_class_defs cleaner_defs produces_nothing_def)

text \<open>When no backend produces anything, the three are run and the text is empty.\<close>

lemma extract_text_from_pdf_nothing:
  assumes "produces_nothing w Pdfplumber" and "produces_nothing w PyPDF2"
    and "produces_nothing w Pdftotext"
  shows "extract_text_from_pdf U w = ([], [Pdfplumber, PyPDF2, Pdftotext])"
proof -
  obtain t1 r1 where one: "run_reader (pdfplumber w) [] = (t1, r1)"
    by (cases "run_reader (pdfplumber w) []")
  obtain t2 r2 where two: "run_reader (pypdf2 w) [] = (t2, r2)"
    by (cases "run_reader (pypdf2 w) []")
  have acc: "run_reader (pypdf2 w) t1 = (t1 @ t2, r2)"
    using run_reader_acc [of "pypdf2 w" t1] two by simp
  from assms(1) one have b1: "strip t1 = []" by (simp add: produces_nothing_def)
  from assms(2) two have b2: "strip t2 = []" by (simp add: produces_nothing_def)
  from b1 b2 have b12: "strip (t1 @ t2) = []" by (simp add: strip_blank_prefix)
  show ?thesis using one acc b1 b12 assms(3)
    by (auto simp: extract_text_from_pdf_def produces_nothing_def split: option.splits)
qed

text \<open>
  Claim C7, amended. For a PDF whose download succeeds and on which none of the three
  backends produces a character other than whitespace, when the time lookup of the
  handler succeeds, the result has \<^verbatim>\<open>success = False\<close> and the error
  \<^verbatim>\<open>"No text could be extracted from the file"\<close>, and this is the result that is
  posted to the callback.
\<close>

theorem empty_pdf_reports_failure:
  assumes "resolve_extension w = str ''.pdf''" and "download w = Downloaded"
    and "produces_nothing w Pdfplumber" and "produces_nothing w PyPDF2"
    and "produces_nothing w Pdftotext"
    and "time_in_except w = Inr now"
  shows "returned (process_file U w app_id) =
       Inr \<lparr>success = False, application_id = app_id, extracted_text = None,
            file_type = None, text_length = None,
            error = Some (str ''No text could be extracted from the file''),
            processing_info = \<lparr>info_method = str ''github_actions'', info_timestamp = now\<rparr>\<rparr>
    \<and> map fst (posts (process_file U w app_id)) =
       [\<lparr>success = False, application_id = app_id, extracted_text = None,
            file_type = None, text_length = None,
            error = Some (str ''No text could be extracted from the file''),
            processing_info = \<lparr>info_method = str ''github_actions'', info_timestamp = now\<rparr>\<rparr>]"
proof -
  have "extract_text_from_pdf U w = ([], [Pdfplumber, PyPDF2, Pdftotext])"
    using assms(3-5) by (rule extract_text_from_pdf_nothing)
  then have "select_extractor U w (str ''.pdf'') = Inr []"
    by (simp add: select_extractor_def)
  then have "fst (try_block U w app_id (str ''.pdf'') (tmp_name w @ str ''.pdf'')
      (insert (tmp_name w) (existing_files w)))
      = Inl (Exception (str ''No text could be extracted from the file''))"
    using assms(2) by (simp add: try_block_def download_file_def strip_Nil)
  then obtain fs1 where tb: "try_block U w app_id (str ''.pdf'') (tmp_name w @ str ''.pdf'')
      (insert (tmp_name w) (existing_files w))
      = (Inl (Exception (str ''No text could be extracted from the file'')), fs1)"
    by (cases "try_block U w app_id (str ''.pdf'') (tmp_name w @ str ''.pdf'')
      (insert (tmp_name w) (existing_files w))") simp
  have ne: "str ''.pdf'' \<noteq> []" by (simp add: str_def)
  show ?thesis using assms(1,6) tb ne
    by (simp add: process_file_def except_block_def Let_def)
qed

theorem empty_pdf_reports_failure_witness:
  "resolve_extension empty_pdf_world = str ''.pdf''
   \<and> download empty_pdf_world = Downloaded
   \<and> produces_nothing empty_pdf_world Pdfplumber
   \<and> produces_nothing empty_pdf_world PyPDF2
   \<and> produces_nothing empty_pdf_world Pdftotext
   \<and> time_in_except empty_pdf_world = Inr (str ''2024-01-01T00:00:00+00:00'')
   \<and> returned (process_file ascii_only empty_pdf_world (str ''42'')) =
       Inr \<lparr>success = False, application_id = str ''42'', extracted_text = None,
            file_type = None, text_length = None,
            error = Some (str ''No text could be extracted from the file''),
            processing_info = \<lparr>info_method = str ''github_actions'',
              info_timestamp = str ''2024-01-01T00:00:00+00:00''\<rparr>\<rparr>"
proof -
  have h: "resolve_extension empty_pdf_world = str ''.pdf''"
    "download empty_pdf_world = Downloaded"
    "produces_nothing empty_pdf_world Pdfplumber"
    "produces_nothing empty_pdf_world PyPDF2"
    "produces_nothing empty_pdf_world Pdftotext"
    "time_in_except empty_pdf_world = Inr (str ''2024-01-01T00:00:00+00:00'')"
    by (simp_all add: world_defs resolve_extension_def produces_nothing_def run_reader_def
        strip_def str_def)
  from empty_pdf_reports_failure [OF h, of ascii_only "str ''42''"] h show ?thesis by simp
qed










end
